theory Spec2Isabelle
  imports Main
begin

section \<open>Data model (types.ts)\<close>

text \<open>
  Image references, pose instructions and scene tags are strings. A \<open>File\<close> is an opaque
  handle, and so is the value thrown by a failing service call.
\<close>

type_synonym File = string
type_synonym err = string

record WardrobeItem =
  item_id :: string
  item_name :: string
  item_url :: string

text \<open>
  \<open>poseImages\<close> is a JavaScript object used as a dictionary. Its keys are pose
  instructions (never integer-like), so \<open>Object.values\<close> enumerates the entries in the
  order of their first insertion: an association list with distinct keys, kept in that
  order. The optional field \<open>garments\<close> is \<open>None\<close> when absent.
\<close>

record OutfitLayer =
  garment :: "WardrobeItem option"
  garments :: "WardrobeItem list option"
  poseImages :: "(string \<times> string) list"

section \<open>JavaScript primitives used by App.tsx\<close>

text \<open>A value of type \<open>string | null | undefined\<close>.\<close>

datatype js_string = Null | Undefined | Str string

text \<open>\<open>xs[i]\<close>: \<open>undefined\<close> (here \<open>None\<close>) outside the array.\<close>

definition js_nth :: "'a list \<Rightarrow> int \<Rightarrow> 'a option" where
  "js_nth xs i = (if 0 \<le> i \<and> i < int (length xs) then Some (xs ! nat i) else None)"

text \<open>\<open>xs.slice(0, e)\<close>: a negative end counts from the end of the array.\<close>

definition js_slice0 :: "'a list \<Rightarrow> int \<Rightarrow> 'a list" where
  "js_slice0 xs e =
     (if e < 0 then take (nat (max (int (length xs) + e) 0)) xs else take (nat e) xs)"

text \<open>
  \<open>ys = [...xs]; ys.splice(index, 1)\<close>: a negative start counts from the end, a start
  beyond the end removes nothing.
\<close>

definition js_splice1 :: "'a list \<Rightarrow> int \<Rightarrow> 'a list" where
  "js_splice1 xs index =
     (let len = int (length xs);
          start = (if index < 0 then max (len + index) 0 else min index len)
      in take (nat start) xs @ drop (Suc (nat start)) xs)"

text \<open>\<open>obj[k]\<close>, \<open>obj[k] = v\<close> and \<open>Object.values(obj)\<close> on a dictionary object.\<close>

definition prop_get :: "(string \<times> string) list \<Rightarrow> string \<Rightarrow> string option" where
  "prop_get obj k = map_of obj k"

fun prop_set :: "string \<Rightarrow> string \<Rightarrow> (string \<times> string) list \<Rightarrow> (string \<times> string) list" where
  "prop_set k v [] = [(k, v)]"
| "prop_set k v (p # ps) = (if fst p = k then (k, v) # ps else p # prop_set k v ps)"

definition object_values :: "(string \<times> string) list \<Rightarrow> string list" where
  "object_values obj = map snd obj"

text \<open>A value used as a property key is converted to a string: \<open>undefined\<close> names the
  property \<open>"undefined"\<close>.\<close>

definition prop_key :: "string option \<Rightarrow> string" where
  "prop_key k = (case k of Some p \<Rightarrow> p | None \<Rightarrow> ''undefined'')"

text \<open>The decimal digits of a number inside a template string.\<close>

definition digit :: "nat \<Rightarrow> char" where
  "digit d = ''0123456789'' ! d"

fun string_of_nat :: "nat \<Rightarrow> string" where
  "string_of_nat n =
     (if n < 10 then [digit n] else string_of_nat (n div 10) @ [digit (n mod 10)])"

declare string_of_nat.simps [simp del]

text \<open>\<open>if (obj[k])\<close>: present and not the empty string.\<close>

definition truthy_entry :: "string option \<Rightarrow> bool" where
  "truthy_entry v = (case v of Some u \<Rightarrow> u \<noteq> [] | None \<Rightarrow> False)"

section \<open>Application state (App.tsx)\<close>

definition POSE_INSTRUCTIONS :: "string list" where
  "POSE_INSTRUCTIONS =
     [''Full frontal view, hands on hips'',
      ''Slightly turned, 3/4 view'',
      ''Side profile view'',
      ''Jumping in the air, mid-action shot'',
      ''Walking towards camera'',
      ''Leaning against a wall'']"

text \<open>
  The requests sent to the image service. \<open>extCalls\<close> in the state below is the log of
  these requests, in the order they are issued; it is the only field that is not a
  \<open>useState\<close> cell of the component.
\<close>

datatype ext_call =
    VirtualTryOn string File
  | MultiGarmentTryOn string "File list"
  | PoseVariation string "string option"
  | SceneVariation string string

record app_state =
  generatedModelUrl :: "string option"
  isAppStarted :: bool
  outfitHistory :: "OutfitLayer list"
  currentOutfitIndex :: int
  isLoading :: bool
  loadingMessage :: string
  error :: "string option"
  currentPoseIndex :: int
  isSheetCollapsed :: bool
  currentScene :: string
  wardrobe :: "WardrobeItem list"
  extCalls :: "ext_call list"

text \<open>
  The collaborators of the component: the four image services of geminiService.ts, whose
  answer is either a thrown value (\<open>Inl\<close>) or an image URL (\<open>Inr\<close>), the
  \<open>FileReader\<close> conversion, the message mapper of lib/utils and the media query.
\<close>

record env =
  generateVirtualTryOnImage :: "string \<Rightarrow> File \<Rightarrow> err + string"
  generateMultiGarmentTryOn :: "string \<Rightarrow> File list \<Rightarrow> err + string"
  generatePoseVariation :: "string \<Rightarrow> string option \<Rightarrow> err + string"
  generateSceneVariation :: "string \<Rightarrow> string \<Rightarrow> err + string"
  fileToBase64 :: "File \<Rightarrow> err + string"
  getFriendlyErrorMessage :: "err \<Rightarrow> string \<Rightarrow> string"
  isMobile :: bool

text \<open>
  A handler made by \<open>useCallback\<close> reads the state of the render in which it was made
  (its closure), while the setters it calls, and the updater functions it passes to them,
  act on the state the component has when they run. The answer of an awaited service is
  given by the environment.

  \<^item> The garment handlers are functions of two states, \<open>render\<close> and \<open>live\<close>, and are
    split at their \<open>await\<close>: undo, redo and removal are not disabled while a request is
    pending, and WardrobePanel calls the \<open>onGarmentSelect\<close> it captured only after an
    \<open>await\<close> of its own.
  \<^item> Undo, redo and removal are synchronous and are invoked from the current render.
  \<^item> Canvas invokes \<open>handlePoseSelect\<close> and \<open>handleSceneSelect\<close> from the current render;
    they are given as run from invocation to their \<open>finally\<close> block.
\<close>

subsection \<open>Derived values\<close>

definition nullable :: "string option \<Rightarrow> js_string" where
  "nullable v = (case v of None \<Rightarrow> Null | Some u \<Rightarrow> Str u)"

definition displayImageUrl :: "app_state \<Rightarrow> js_string" where
  "displayImageUrl s =
     (if length (outfitHistory s) = 0 then nullable (generatedModelUrl s)
      else case js_nth (outfitHistory s) (currentOutfitIndex s) of
             None \<Rightarrow> nullable (generatedModelUrl s)
           | Some currentLayer \<Rightarrow>
               let poseInstruction = js_nth POSE_INSTRUCTIONS (currentPoseIndex s) in
               (case prop_get (poseImages currentLayer) (prop_key poseInstruction) of
                  Some v \<Rightarrow> Str v
                | None \<Rightarrow>
                    (case object_values (poseImages currentLayer) of
                       [] \<Rightarrow> Undefined
                     | v # _ \<Rightarrow> Str v)))"

subsection \<open>Start and reset\<close>

definition handleModelFinalized :: "string \<Rightarrow> app_state \<Rightarrow> app_state" where
  "handleModelFinalized url s =
     s\<lparr>generatedModelUrl := Some url,
       isAppStarted := True,
       outfitHistory :=
         [\<lparr>garment = None, garments = None,
           poseImages = [(prop_key (js_nth POSE_INSTRUCTIONS 0), url)]\<rparr>],
       currentOutfitIndex := 0\<rparr>"

definition handleBackToStart :: "app_state \<Rightarrow> app_state" where
  "handleBackToStart s =
     s\<lparr>isAppStarted := False,
       outfitHistory := [],
       currentOutfitIndex := 0,
       isLoading := False,
       loadingMessage := [],
       error := None,
       currentPoseIndex := 0,
       currentScene := ''Studio''\<rparr>"

subsection \<open>Garment application\<close>

text \<open>The two state updaters of a successful application.\<close>

definition appendLayer :: "int \<Rightarrow> OutfitLayer \<Rightarrow> app_state \<Rightarrow> app_state" where
  "appendLayer closureIndex newLayer s =
     (let s1 = s\<lparr>outfitHistory := js_slice0 (outfitHistory s) (closureIndex + 1) @ [newLayer]\<rparr>
      in s1\<lparr>currentOutfitIndex := currentOutfitIndex s1 + 1\<rparr>)"

text \<open>The updater passed to \<open>setWardrobe\<close>.\<close>

definition registerItem :: "WardrobeItem \<Rightarrow> WardrobeItem list \<Rightarrow> WardrobeItem list" where
  "registerItem persistentItem prev =
     (if find (\<lambda>i. item_id i = item_id persistentItem) prev \<noteq> None then prev
      else prev @ [persistentItem])"

definition finally_idle :: "app_state \<Rightarrow> app_state" where
  "finally_idle s = s\<lparr>isLoading := False, loadingMessage := []\<rparr>"

text \<open>
  \<open>handleGarmentSelect\<close>, split at its \<open>await\<close>. The guard, the image sent to the
  service, the truncation index, the pose key and the test \<open>isNewItem\<close> are read from
  \<open>render\<close>, the state captured by \<open>useCallback\<close>; the setters and the updaters act on
  \<open>live\<close>.
\<close>

definition handleGarmentSelect_start ::
  "env \<Rightarrow> File \<Rightarrow> WardrobeItem \<Rightarrow> app_state \<Rightarrow> app_state \<Rightarrow> app_state" where
  "handleGarmentSelect_start e garmentFile garmentInfo render live =
     (case displayImageUrl render of
        Str currentImage \<Rightarrow>
          if currentImage = [] \<or> isLoading render then live
          else
            let s1 = (if isMobile e then live\<lparr>isSheetCollapsed := True\<rparr> else live);
                s2 = s1\<lparr>error := None, isLoading := True,
                        loadingMessage := ''Adding '' @ item_name garmentInfo @ ''...''\<rparr>
            in s2\<lparr>extCalls := extCalls s2 @ [VirtualTryOn currentImage garmentFile]\<rparr>
      | Null \<Rightarrow> live
      | Undefined \<Rightarrow> live)"

definition handleGarmentSelect_finish ::
  "env \<Rightarrow> File \<Rightarrow> WardrobeItem \<Rightarrow> app_state \<Rightarrow> app_state \<Rightarrow> app_state" where
  "handleGarmentSelect_finish e garmentFile garmentInfo render live =
     (case displayImageUrl render of
        Str currentImage \<Rightarrow>
          if currentImage = [] \<or> isLoading render then live
          else
            finally_idle
              (case generateVirtualTryOnImage e currentImage garmentFile of
                 Inr newImageUrl \<Rightarrow>
                   let currentPoseInstruction =
                         js_nth POSE_INSTRUCTIONS (currentPoseIndex render);
                       newLayer = \<lparr>garment = Some garmentInfo, garments = None,
                                   poseImages = [(prop_key currentPoseInstruction, newImageUrl)]\<rparr>;
                       s4 = appendLayer (currentOutfitIndex render) newLayer live;
                       isNewItem =
                         (find (\<lambda>item. item_id item = item_id garmentInfo) (wardrobe render)
                            = None)
                   in if isNewItem then
                        (case fileToBase64 e garmentFile of
                           Inr base64Url \<Rightarrow>
                             let persistentItem = garmentInfo\<lparr>item_url := base64Url\<rparr>
                             in s4\<lparr>wardrobe := registerItem persistentItem (wardrobe s4)\<rparr>
                         | Inl _ \<Rightarrow> s4)
                      else s4
               | Inl err \<Rightarrow>
                   let s4 = live\<lparr>error :=
                              Some (getFriendlyErrorMessage e err ''Failed to apply garment'')\<rparr>
                   in if isMobile e then s4\<lparr>isSheetCollapsed := False\<rparr> else s4)
      | Null \<Rightarrow> live
      | Undefined \<Rightarrow> live)"

text \<open>The whole handler when nothing else runs while the request is pending.\<close>

definition handleGarmentSelect ::
  "env \<Rightarrow> File \<Rightarrow> WardrobeItem \<Rightarrow> app_state \<Rightarrow> app_state \<Rightarrow> app_state" where
  "handleGarmentSelect e garmentFile garmentInfo render live =
     handleGarmentSelect_finish e garmentFile garmentInfo render
       (handleGarmentSelect_start e garmentFile garmentInfo render live)"

text \<open>\<open>handleMultiGarmentSelect\<close>, split in the same way.\<close>

definition handleMultiGarmentSelect_start ::
  "env \<Rightarrow> (File \<times> WardrobeItem) list \<Rightarrow> app_state \<Rightarrow> app_state \<Rightarrow> app_state" where
  "handleMultiGarmentSelect_start e items render live =
     (case displayImageUrl render of
        Str currentImage \<Rightarrow>
          if currentImage = [] \<or> isLoading render \<or> length items = 0 then live
          else
            let s1 = (if isMobile e then live\<lparr>isSheetCollapsed := True\<rparr> else live);
                s2 = s1\<lparr>error := None, isLoading := True,
                        loadingMessage :=
                          ''Mixing '' @ string_of_nat (length items) @ '' items...''\<rparr>;
                files = map fst items
            in s2\<lparr>extCalls := extCalls s2 @ [MultiGarmentTryOn currentImage files]\<rparr>
      | Null \<Rightarrow> live
      | Undefined \<Rightarrow> live)"

definition handleMultiGarmentSelect_finish ::
  "env \<Rightarrow> (File \<times> WardrobeItem) list \<Rightarrow> app_state \<Rightarrow> app_state \<Rightarrow> app_state" where
  "handleMultiGarmentSelect_finish e items render live =
     (case displayImageUrl render of
        Str currentImage \<Rightarrow>
          if currentImage = [] \<or> isLoading render \<or> length items = 0 then live
          else
            let files = map fst items
            in finally_idle
              (case generateMultiGarmentTryOn e currentImage files of
                 Inr newImageUrl \<Rightarrow>
                   let currentPoseInstruction =
                         js_nth POSE_INSTRUCTIONS (currentPoseIndex render);
                       newLayer = \<lparr>garment = Some (snd (hd items)),
                                   garments = Some (map snd items),
                                   poseImages = [(prop_key currentPoseInstruction, newImageUrl)]\<rparr>
                   in appendLayer (currentOutfitIndex render) newLayer live
               | Inl err \<Rightarrow>
                   let s4 = live\<lparr>error :=
                              Some (getFriendlyErrorMessage e err ''Failed to apply outfit'')\<rparr>
                   in if isMobile e then s4\<lparr>isSheetCollapsed := False\<rparr> else s4)
      | Null \<Rightarrow> live
      | Undefined \<Rightarrow> live)"

definition handleMultiGarmentSelect ::
  "env \<Rightarrow> (File \<times> WardrobeItem) list \<Rightarrow> app_state \<Rightarrow> app_state \<Rightarrow> app_state" where
  "handleMultiGarmentSelect e items render live =
     handleMultiGarmentSelect_finish e items render
       (handleMultiGarmentSelect_start e items render live)"

subsection \<open>Undo, redo and removal\<close>

definition handleUndo :: "app_state \<Rightarrow> app_state" where
  "handleUndo s =
     (if currentOutfitIndex s > 0
      then s\<lparr>currentOutfitIndex := currentOutfitIndex s - 1, currentPoseIndex := 0\<rparr>
      else s)"

definition handleRedo :: "app_state \<Rightarrow> app_state" where
  "handleRedo s =
     (if currentOutfitIndex s < int (length (outfitHistory s)) - 1
      then s\<lparr>currentOutfitIndex := currentOutfitIndex s + 1, currentPoseIndex := 0\<rparr>
      else s)"

definition handleRemoveWardrobeItem :: "string \<Rightarrow> app_state \<Rightarrow> app_state" where
  "handleRemoveWardrobeItem itemId s =
     s\<lparr>wardrobe := filter (\<lambda>item. item_id item \<noteq> itemId) (wardrobe s)\<rparr>"

definition handleRemoveLayer :: "int \<Rightarrow> app_state \<Rightarrow> app_state" where
  "handleRemoveLayer index s =
     (if index = 0
      then s\<lparr>error :=
               Some ''Cannot remove the base model. Please start over to change the model.''\<rparr>
      else
        let s1 = s\<lparr>outfitHistory := js_splice1 (outfitHistory s) index\<rparr>
        in if currentOutfitIndex s \<ge> index
           then s1\<lparr>currentOutfitIndex := max 0 (currentOutfitIndex s - 1)\<rparr>
           else s1)"

subsection \<open>Pose and scene\<close>

text \<open>
  The updater of a successful pose change stores the image in the layer at the index of
  the closure. The layer was read before the call, so it exists.
\<close>

definition setPoseImage :: "int \<Rightarrow> string \<Rightarrow> string \<Rightarrow> OutfitLayer list \<Rightarrow> OutfitLayer list" where
  "setPoseImage closureIndex k v prevHistory =
     (case js_nth prevHistory closureIndex of
        Some updatedLayer \<Rightarrow>
          prevHistory[nat closureIndex :=
            updatedLayer\<lparr>poseImages := prop_set k v (poseImages updatedLayer)\<rparr>]
      | None \<Rightarrow> prevHistory)"

definition handlePoseSelect :: "env \<Rightarrow> int \<Rightarrow> app_state \<Rightarrow> app_state" where
  "handlePoseSelect e newIndex s =
     (if isLoading s \<or> length (outfitHistory s) = 0 \<or> newIndex = currentPoseIndex s then s
      else
        let poseInstruction = js_nth POSE_INSTRUCTIONS newIndex in
        case js_nth (outfitHistory s) (currentOutfitIndex s) of
          None \<Rightarrow> s
        | Some currentLayer \<Rightarrow>
            if truthy_entry (prop_get (poseImages currentLayer) (prop_key poseInstruction))
            then s\<lparr>currentPoseIndex := newIndex\<rparr>
            else
              (case object_values (poseImages currentLayer) of
                 [] \<Rightarrow> s
               | baseImageForPoseChange # _ \<Rightarrow>
                   if baseImageForPoseChange = [] then s
                   else
                     let s1 = s\<lparr>error := None, isLoading := True,
                                loadingMessage := ''Changing pose...''\<rparr>;
                         prevPoseIndex = currentPoseIndex s;
                         s2 = s1\<lparr>currentPoseIndex := newIndex\<rparr>;
                         s3 = s2\<lparr>extCalls := extCalls s2 @
                                  [PoseVariation baseImageForPoseChange poseInstruction]\<rparr>
                     in finally_idle
                       (case generatePoseVariation e baseImageForPoseChange poseInstruction of
                          Inr newImageUrl \<Rightarrow>
                            s3\<lparr>outfitHistory :=
                                 setPoseImage (currentOutfitIndex s) (prop_key poseInstruction)
                                   newImageUrl (outfitHistory s3)\<rparr>
                        | Inl err \<Rightarrow>
                            s3\<lparr>error :=
                                 Some (getFriendlyErrorMessage e err ''Failed to change pose''),
                               currentPoseIndex := prevPoseIndex\<rparr>)))"

text \<open>The part of \<open>handlePoseSelect\<close> before the answer: the state while the request, if one
  is sent, is pending.\<close>

definition handlePoseSelect_start :: "env \<Rightarrow> int \<Rightarrow> app_state \<Rightarrow> app_state" where
  "handlePoseSelect_start e newIndex s =
     (if isLoading s \<or> length (outfitHistory s) = 0 \<or> newIndex = currentPoseIndex s then s
      else
        let poseInstruction = js_nth POSE_INSTRUCTIONS newIndex in
        case js_nth (outfitHistory s) (currentOutfitIndex s) of
          None \<Rightarrow> s
        | Some currentLayer \<Rightarrow>
            if truthy_entry (prop_get (poseImages currentLayer) (prop_key poseInstruction))
            then s\<lparr>currentPoseIndex := newIndex\<rparr>
            else
              (case object_values (poseImages currentLayer) of
                 [] \<Rightarrow> s
               | baseImageForPoseChange # _ \<Rightarrow>
                   if baseImageForPoseChange = [] then s
                   else
                     let s1 = s\<lparr>error := None, isLoading := True,
                                loadingMessage := ''Changing pose...''\<rparr>;
                         s2 = s1\<lparr>currentPoseIndex := newIndex\<rparr>
                     in s2\<lparr>extCalls := extCalls s2 @
                              [PoseVariation baseImageForPoseChange poseInstruction]\<rparr>))"

text \<open>
  The updater of a successful scene change. Beyond the end of the array it returns the
  previous history; at a negative index the assignment creates a property that is not an
  element, so the elements are the previous ones.
\<close>

definition setSceneImage :: "int \<Rightarrow> string \<Rightarrow> string \<Rightarrow> OutfitLayer list \<Rightarrow> OutfitLayer list" where
  "setSceneImage closureIndex currentPose newImageUrl prevHistory =
     (if closureIndex \<ge> int (length prevHistory) then prevHistory
      else case js_nth prevHistory closureIndex of
             None \<Rightarrow> prevHistory
           | Some layer \<Rightarrow>
               prevHistory[nat closureIndex :=
                 layer\<lparr>poseImages := prop_set currentPose newImageUrl (poseImages layer)\<rparr>])"

definition handleSceneSelect :: "env \<Rightarrow> string \<Rightarrow> app_state \<Rightarrow> app_state" where
  "handleSceneSelect e scene s =
     (case displayImageUrl s of
        Str currentImage \<Rightarrow>
          if isLoading s \<or> currentImage = [] \<or> scene = currentScene s then s
          else
            let s1 = s\<lparr>error := None, isLoading := True,
                       loadingMessage := ''Transporting to '' @ scene @ ''...''\<rparr>;
                s2 = s1\<lparr>extCalls := extCalls s1 @ [SceneVariation currentImage scene]\<rparr>
            in finally_idle
              (case generateSceneVariation e currentImage scene of
                 Inr newImageUrl \<Rightarrow>
                   s2\<lparr>outfitHistory :=
                        setSceneImage (currentOutfitIndex s)
                          (prop_key (js_nth POSE_INSTRUCTIONS (currentPoseIndex s)))
                          newImageUrl (outfitHistory s2),
                      currentScene := scene\<rparr>
               | Inl err \<Rightarrow>
                   s2\<lparr>error :=
                        Some (getFriendlyErrorMessage e err ''Failed to change scene'')\<rparr>)
      | Null \<Rightarrow> s
      | Undefined \<Rightarrow> s)"

section \<open>Runs without interleaving\<close>

text \<open>The initial values of the \<open>useState\<close> cells; the wardrobe comes from local storage or
  from the default catalogue.\<close>

definition initial_state :: "WardrobeItem list \<Rightarrow> app_state" where
  "initial_state w =
     \<lparr>generatedModelUrl = None, isAppStarted = False, outfitHistory = [],
      currentOutfitIndex = 0, isLoading = False, loadingMessage = [], error = None,
      currentPoseIndex = 0, isSheetCollapsed = False, currentScene = ''Studio'',
      wardrobe = w, extCalls = []\<rparr>"

text \<open>The invariant of the timeline.\<close>

definition timeline_inv :: "app_state \<Rightarrow> bool" where
  "timeline_inv s =
     (0 \<le> currentOutfitIndex s \<and> currentOutfitIndex s < int (length (outfitHistory s))
      \<and> 1 \<le> length (outfitHistory s))"

text \<open>
  The states of the studio reached when every handler is the callback of the current
  render (\<open>render = live\<close>) and nothing else runs while its request is pending. These are
  not all the states of the component: a step between the two halves of a garment handler,
  or a call of a captured callback, is no rule here. The index given to
  \<open>handleRemoveLayer\<close> is a position of the rendered layer list (OutfitStack.tsx passes
  the index of \<open>Array.map\<close>).
\<close>

inductive uninterrupted :: "app_state \<Rightarrow> bool" where
  finalized: "uninterrupted (handleModelFinalized url s0)"
| garment: "uninterrupted s \<Longrightarrow> uninterrupted (handleGarmentSelect e garmentFile garmentInfo s s)"
| multi: "uninterrupted s \<Longrightarrow> uninterrupted (handleMultiGarmentSelect e items s s)"
| undo: "uninterrupted s \<Longrightarrow> uninterrupted (handleUndo s)"
| redo: "uninterrupted s \<Longrightarrow> uninterrupted (handleRedo s)"
| removeItem: "uninterrupted s \<Longrightarrow> uninterrupted (handleRemoveWardrobeItem itemId s)"
| removeLayer: "uninterrupted s \<Longrightarrow> 0 \<le> index \<Longrightarrow> uninterrupted (handleRemoveLayer index s)"
| pose: "uninterrupted s \<Longrightarrow> uninterrupted (handlePoseSelect e newIndex s)"
| scene: "uninterrupted s \<Longrightarrow> uninterrupted (handleSceneSelect e scene s)"

section \<open>Concrete environments and scenarios\<close>

definition demo_env :: env where
  "demo_env =
     \<lparr>generateVirtualTryOnImage = (\<lambda>img f. Inr (''try:'' @ f)),
      generateMultiGarmentTryOn = (\<lambda>img fs. Inr (''multi:'' @ concat fs)),
      generatePoseVariation = (\<lambda>img p. Inr (''pose:'' @ img)),
      generateSceneVariation = (\<lambda>img sc. Inr (''scene:'' @ sc)),
      fileToBase64 = (\<lambda>f. Inr (''b64:'' @ f)),
      getFriendlyErrorMessage = (\<lambda>err ctx. ctx @ '': '' @ err),
      isMobile = False\<rparr>"

definition failing_env :: env where
  "failing_env =
     \<lparr>generateVirtualTryOnImage = (\<lambda>img f. Inl ''blocked''),
      generateMultiGarmentTryOn = (\<lambda>img fs. Inl ''blocked''),
      generatePoseVariation = (\<lambda>img p. Inl ''blocked''),
      generateSceneVariation = (\<lambda>img sc. Inl ''blocked''),
      fileToBase64 = (\<lambda>f. Inl ''unreadable''),
      getFriendlyErrorMessage = (\<lambda>err ctx. ctx @ '': '' @ err),
      isMobile = True\<rparr>"

definition shirt :: WardrobeItem where
  "shirt = \<lparr>item_id = ''g1'', item_name = ''Shirt'', item_url = ''u1''\<rparr>"

definition hat :: WardrobeItem where
  "hat = \<lparr>item_id = ''g2'', item_name = ''Hat'', item_url = ''u2''\<rparr>"

text \<open>Scenarios A and B of the specification: the model is finalized, then a shirt is
  applied from the current render.\<close>

definition scenario_A :: app_state where
  "scenario_A = handleModelFinalized ''M0'' (initial_state [])"

definition scenario_B :: app_state where
  "scenario_B = handleGarmentSelect demo_env ''f1'' shirt scenario_A scenario_A"

text \<open>Scenario C before the second garment: one layer can be redone.\<close>

definition scenario_C_undone :: app_state where
  "scenario_C_undone = handleUndo scenario_B"

text \<open>The studio left through the back button after the model was finalized.\<close>

definition back_at_start :: app_state where
  "back_at_start = handleBackToStart scenario_A"

text \<open>Scenario B with a second pose generated, then with the garment layer removed.\<close>

definition posed_state :: app_state where
  "posed_state = handlePoseSelect demo_env 1 scenario_B"

definition base_only_state :: app_state where
  "base_only_state = handleRemoveLayer 1 posed_state"

text \<open>
  Redo during a pending try-on. After the undo of Scenario C a hat is tried on; while the
  request is pending the redo button, which only \<open>canRedo\<close> disables, is pressed; then the
  service answers.
\<close>

definition try_on_pending :: app_state where
  "try_on_pending =
     handleGarmentSelect_start demo_env ''f2'' hat scenario_C_undone scenario_C_undone"

definition redo_during_try_on :: app_state where
  "redo_during_try_on =
     handleGarmentSelect_finish demo_env ''f2'' hat scenario_C_undone (handleRedo try_on_pending)"

text \<open>
  A captured callback. In Scenario B \<open>WardrobePanel.handleTryOn\<close> awaits \<open>urlToFile\<close> and
  then calls the \<open>onGarmentSelect\<close> of the render in which the button was pressed. In the
  meantime either undo is pressed, or a pose change is started and is still pending.
\<close>

definition undo_before_callback :: app_state where
  "undo_before_callback =
     handleGarmentSelect demo_env ''f2'' hat scenario_B (handleUndo scenario_B)"

definition pose_pending :: app_state where
  "pose_pending = handlePoseSelect_start demo_env 1 scenario_B"

definition try_on_while_busy :: app_state where
  "try_on_while_busy = handleGarmentSelect demo_env ''f2'' hat scenario_B pose_pending"

section \<open>Properties\<close>

subsection \<open>Field lemmas\<close>

lemma finally_idle_timeline [simp]:
  "outfitHistory (finally_idle s) = outfitHistory s"
  "currentOutfitIndex (finally_idle s) = currentOutfitIndex s"
  "currentPoseIndex (finally_idle s) = currentPoseIndex s"
  "currentScene (finally_idle s) = currentScene s"
  "wardrobe (finally_idle s) = wardrobe s"
  "extCalls (finally_idle s) = extCalls s"
  by (simp_all add: finally_idle_def)

lemma appendLayer_fields [simp]:
  "outfitHistory (appendLayer c l s) = js_slice0 (outfitHistory s) (c + 1) @ [l]"
  "currentOutfitIndex (appendLayer c l s) = currentOutfitIndex s + 1"
  "currentPoseIndex (appendLayer c l s) = currentPoseIndex s"
  "currentScene (appendLayer c l s) = currentScene s"
  "wardrobe (appendLayer c l s) = wardrobe s"
  "extCalls (appendLayer c l s) = extCalls s"
  by (simp_all add: appendLayer_def Let_def)

lemma js_slice0_in_range:
  "0 \<le> k \<Longrightarrow> k < int (length xs) \<Longrightarrow> js_slice0 xs (k + 1) = take (nat k + 1) xs"
  by (simp add: js_slice0_def nat_add_distrib)

lemma length_js_slice0_in_range:
  "0 \<le> k \<Longrightarrow> k < int (length xs) \<Longrightarrow> length (js_slice0 xs (k + 1)) = nat k + 1"
  by (simp add: js_slice0_in_range)

lemma timeline_inv_appendLayer:
  assumes "timeline_inv s"
  shows "timeline_inv (appendLayer (currentOutfitIndex s) l s)"
  using assms length_js_slice0_in_range [of "currentOutfitIndex s" "outfitHistory s"]
  by (simp add: timeline_inv_def)

lemma handleGarmentSelect_start_timeline [simp]:
  "outfitHistory (handleGarmentSelect_start e f g render live) = outfitHistory live"
  "currentOutfitIndex (handleGarmentSelect_start e f g render live) = currentOutfitIndex live"
  "wardrobe (handleGarmentSelect_start e f g render live) = wardrobe live"
  by (simp_all add: handleGarmentSelect_start_def Let_def split: js_string.splits)

lemma handleMultiGarmentSelect_start_timeline [simp]:
  "outfitHistory (handleMultiGarmentSelect_start e items render live) = outfitHistory live"
  "currentOutfitIndex (handleMultiGarmentSelect_start e items render live) =
     currentOutfitIndex live"
  by (simp_all add: handleMultiGarmentSelect_start_def Let_def split: js_string.splits)

text \<open>A successful application truncates by the cursor of the closure and increments the
  live cursor.\<close>

lemma handleGarmentSelect_success:
  assumes "displayImageUrl render = Str img" "img \<noteq> []" "\<not> isLoading render"
    and "generateVirtualTryOnImage e img f = Inr url"
  shows "outfitHistory (handleGarmentSelect e f g render live) =
           js_slice0 (outfitHistory live) (currentOutfitIndex render + 1) @
             [\<lparr>garment = Some g, garments = None,
               poseImages =
                 [(prop_key (js_nth POSE_INSTRUCTIONS (currentPoseIndex render)), url)]\<rparr>]"
    and "currentOutfitIndex (handleGarmentSelect e f g render live) = currentOutfitIndex live + 1"
  using assms
  by (simp_all add: handleGarmentSelect_def handleGarmentSelect_finish_def Let_def
      split: sum.splits)

lemma handleMultiGarmentSelect_success:
  assumes "displayImageUrl render = Str img" "img \<noteq> []" "\<not> isLoading render" "items \<noteq> []"
    and "generateMultiGarmentTryOn e img (map fst items) = Inr url"
  shows "outfitHistory (handleMultiGarmentSelect e items render live) =
           js_slice0 (outfitHistory live) (currentOutfitIndex render + 1) @
             [\<lparr>garment = Some (snd (hd items)), garments = Some (map snd items),
               poseImages =
                 [(prop_key (js_nth POSE_INSTRUCTIONS (currentPoseIndex render)), url)]\<rparr>]"
    and "currentOutfitIndex (handleMultiGarmentSelect e items render live) =
           currentOutfitIndex live + 1"
  using assms
  by (simp_all add: handleMultiGarmentSelect_def handleMultiGarmentSelect_finish_def Let_def)

text \<open>The guard of a garment handler reads the flag of its closure.\<close>

lemma busy_closure_rejects:
  assumes "isLoading render"
  shows "handleGarmentSelect e garmentFile garmentInfo render live = live"
    and "handleMultiGarmentSelect e items render live = live"
  using assms
  by (simp_all add: handleGarmentSelect_def handleGarmentSelect_start_def
      handleGarmentSelect_finish_def handleMultiGarmentSelect_def
      handleMultiGarmentSelect_start_def handleMultiGarmentSelect_finish_def
      split: js_string.splits)

lemma busy_render_rejects:
  assumes "isLoading s"
  shows "handlePoseSelect e newIndex s = s" and "handleSceneSelect e scene s = s"
  using assms
  by (simp_all add: handlePoseSelect_def handleSceneSelect_def split: js_string.splits)

text \<open>\<open>handlePoseSelect\<close> is \<open>handlePoseSelect_start\<close> followed by the answer.\<close>

lemma handlePoseSelect_after_start:
  assumes "\<not> isLoading s" "i \<noteq> currentPoseIndex s"
    and "js_nth (outfitHistory s) (currentOutfitIndex s) = Some layer"
    and "\<not> truthy_entry (prop_get (poseImages layer) (prop_key (js_nth POSE_INSTRUCTIONS i)))"
    and "object_values (poseImages layer) = base # others" "base \<noteq> []"
  shows "handlePoseSelect_start e i s =
           s\<lparr>error := None, isLoading := True, loadingMessage := ''Changing pose...'',
             currentPoseIndex := i,
             extCalls := extCalls s @ [PoseVariation base (js_nth POSE_INSTRUCTIONS i)]\<rparr>"
    and "handlePoseSelect e i s =
           finally_idle
             (case generatePoseVariation e base (js_nth POSE_INSTRUCTIONS i) of
                Inr newImageUrl \<Rightarrow>
                  (handlePoseSelect_start e i s)\<lparr>outfitHistory :=
                     setPoseImage (currentOutfitIndex s) (prop_key (js_nth POSE_INSTRUCTIONS i))
                       newImageUrl (outfitHistory s)\<rparr>
              | Inl err \<Rightarrow>
                  (handlePoseSelect_start e i s)\<lparr>error :=
                     Some (getFriendlyErrorMessage e err ''Failed to change pose''),
                     currentPoseIndex := currentPoseIndex s\<rparr>)"
proof -
  from assms(3) have ne: "outfitHistory s \<noteq> []"
    by (auto simp: js_nth_def split: if_splits)
  show "handlePoseSelect_start e i s =
           s\<lparr>error := None, isLoading := True, loadingMessage := ''Changing pose...'',
             currentPoseIndex := i,
             extCalls := extCalls s @ [PoseVariation base (js_nth POSE_INSTRUCTIONS i)]\<rparr>"
    using assms ne by (simp add: handlePoseSelect_start_def Let_def)
  then show "handlePoseSelect e i s =
           finally_idle
             (case generatePoseVariation e base (js_nth POSE_INSTRUCTIONS i) of
                Inr newImageUrl \<Rightarrow>
                  (handlePoseSelect_start e i s)\<lparr>outfitHistory :=
                     setPoseImage (currentOutfitIndex s) (prop_key (js_nth POSE_INSTRUCTIONS i))
                       newImageUrl (outfitHistory s)\<rparr>
              | Inl err \<Rightarrow>
                  (handlePoseSelect_start e i s)\<lparr>error :=
                     Some (getFriendlyErrorMessage e err ''Failed to change pose''),
                     currentPoseIndex := currentPoseIndex s\<rparr>)"
    using assms ne by (simp add: handlePoseSelect_def Let_def split: sum.splits)
qed

subsection \<open>The timeline invariant on runs without interleaving\<close>

lemma handleGarmentSelect_timeline:
  "(outfitHistory (handleGarmentSelect e f g s s) = outfitHistory s \<and>
    currentOutfitIndex (handleGarmentSelect e f g s s) = currentOutfitIndex s) \<or>
   (\<exists>l. outfitHistory (handleGarmentSelect e f g s s) =
          outfitHistory (appendLayer (currentOutfitIndex s) l s) \<and>
        currentOutfitIndex (handleGarmentSelect e f g s s) =
          currentOutfitIndex (appendLayer (currentOutfitIndex s) l s))"
  by (auto simp: handleGarmentSelect_def handleGarmentSelect_finish_def Let_def
      split: js_string.splits sum.splits)

lemma timeline_inv_cong:
  "outfitHistory s' = outfitHistory s \<Longrightarrow> currentOutfitIndex s' = currentOutfitIndex s \<Longrightarrow>
   timeline_inv s \<Longrightarrow> timeline_inv s'"
  by (simp add: timeline_inv_def)

lemma timeline_inv_append_or_same:
  assumes inv: "timeline_inv s"
    and alt: "(outfitHistory s' = outfitHistory s \<and> currentOutfitIndex s' = currentOutfitIndex s) \<or>
       (\<exists>l. outfitHistory s' = outfitHistory (appendLayer (currentOutfitIndex s) l s) \<and>
            currentOutfitIndex s' = currentOutfitIndex (appendLayer (currentOutfitIndex s) l s))"
  shows "timeline_inv s'"
  using alt
proof (elim disjE exE conjE)
  assume "outfitHistory s' = outfitHistory s" "currentOutfitIndex s' = currentOutfitIndex s"
  then show ?thesis using inv by (rule timeline_inv_cong)
next
  fix l
  assume "outfitHistory s' = outfitHistory (appendLayer (currentOutfitIndex s) l s)"
    "currentOutfitIndex s' = currentOutfitIndex (appendLayer (currentOutfitIndex s) l s)"
  then show ?thesis using timeline_inv_appendLayer [OF inv, of l] by (rule timeline_inv_cong)
qed

lemma timeline_inv_handleGarmentSelect:
  assumes "timeline_inv s"
  shows "timeline_inv (handleGarmentSelect e f g s s)"
  using assms handleGarmentSelect_timeline [of e f g s] by (rule timeline_inv_append_or_same)

lemma handleMultiGarmentSelect_timeline:
  "(outfitHistory (handleMultiGarmentSelect e items s s) = outfitHistory s \<and>
    currentOutfitIndex (handleMultiGarmentSelect e items s s) = currentOutfitIndex s) \<or>
   (\<exists>l. outfitHistory (handleMultiGarmentSelect e items s s) =
          outfitHistory (appendLayer (currentOutfitIndex s) l s) \<and>
        currentOutfitIndex (handleMultiGarmentSelect e items s s) =
          currentOutfitIndex (appendLayer (currentOutfitIndex s) l s))"
  by (auto simp: handleMultiGarmentSelect_def handleMultiGarmentSelect_finish_def Let_def
      split: js_string.splits sum.splits)

lemma timeline_inv_handleMultiGarmentSelect:
  assumes "timeline_inv s"
  shows "timeline_inv (handleMultiGarmentSelect e items s s)"
  using assms handleMultiGarmentSelect_timeline [of e items s]
  by (rule timeline_inv_append_or_same)

lemma timeline_inv_handleUndo: "timeline_inv s \<Longrightarrow> timeline_inv (handleUndo s)"
  by (auto simp: timeline_inv_def handleUndo_def)

lemma timeline_inv_handleRedo: "timeline_inv s \<Longrightarrow> timeline_inv (handleRedo s)"
  by (auto simp: timeline_inv_def handleRedo_def)

lemma timeline_inv_handleRemoveWardrobeItem:
  "timeline_inv s \<Longrightarrow> timeline_inv (handleRemoveWardrobeItem itemId s)"
  by (simp add: timeline_inv_def handleRemoveWardrobeItem_def)

lemma length_js_splice1:
  "0 < index \<Longrightarrow>
   length (js_splice1 xs index) = (if index < int (length xs) then length xs - 1 else length xs)"
  by (auto simp: js_splice1_def Let_def min_def)

lemma timeline_inv_handleRemoveLayer:
  assumes "timeline_inv s" and "0 \<le> index"
  shows "timeline_inv (handleRemoveLayer index s)"
proof (cases "index = 0")
  case True
  with assms show ?thesis by (simp add: timeline_inv_def handleRemoveLayer_def)
next
  case False
  with assms have pos: "0 < index" by simp
  show ?thesis
    using assms(1) pos length_js_splice1 [OF pos, of "outfitHistory s"]
    by (auto simp: timeline_inv_def handleRemoveLayer_def Let_def split: if_splits)
qed

lemma length_setPoseImage [simp]: "length (setPoseImage c k v h) = length h"
  by (simp add: setPoseImage_def split: option.splits)

lemma length_setSceneImage [simp]: "length (setSceneImage c k v h) = length h"
  by (simp add: setSceneImage_def split: option.splits)

lemma handlePoseSelect_timeline:
  "length (outfitHistory (handlePoseSelect e i s)) = length (outfitHistory s) \<and>
   currentOutfitIndex (handlePoseSelect e i s) = currentOutfitIndex s"
  by (simp add: handlePoseSelect_def Let_def split: option.splits list.splits sum.splits)

lemma handleSceneSelect_timeline:
  "length (outfitHistory (handleSceneSelect e scene s)) = length (outfitHistory s) \<and>
   currentOutfitIndex (handleSceneSelect e scene s) = currentOutfitIndex s"
  by (simp add: handleSceneSelect_def Let_def split: js_string.splits sum.splits)

lemma timeline_inv_handlePoseSelect:
  "timeline_inv s \<Longrightarrow> timeline_inv (handlePoseSelect e i s)"
  using handlePoseSelect_timeline [of e i s] by (simp add: timeline_inv_def)

lemma timeline_inv_handleSceneSelect:
  "timeline_inv s \<Longrightarrow> timeline_inv (handleSceneSelect e scene s)"
  using handleSceneSelect_timeline [of e scene s] by (simp add: timeline_inv_def)

lemma timeline_inv_handleModelFinalized: "timeline_inv (handleModelFinalized url s0)"
  by (simp add: timeline_inv_def handleModelFinalized_def)

lemma timeline_inv_uninterrupted:
  assumes "uninterrupted s"
  shows "0 \<le> currentOutfitIndex s \<and> currentOutfitIndex s < int (length (outfitHistory s))
         \<and> 1 \<le> length (outfitHistory s)"
proof -
  from assms have "timeline_inv s"
  proof (induction rule: uninterrupted.induct)
    case (finalized url s0)
    show ?case by (rule timeline_inv_handleModelFinalized)
  next
    case (garment s e garmentFile garmentInfo)
    then show ?case by (simp add: timeline_inv_handleGarmentSelect)
  next
    case (multi s e items)
    then show ?case by (simp add: timeline_inv_handleMultiGarmentSelect)
  next
    case (undo s)
    then show ?case by (simp add: timeline_inv_handleUndo)
  next
    case (redo s)
    then show ?case by (simp add: timeline_inv_handleRedo)
  next
    case (removeItem s itemId)
    then show ?case by (simp add: timeline_inv_handleRemoveWardrobeItem)
  next
    case (removeLayer s index)
    then show ?case by (simp add: timeline_inv_handleRemoveLayer)
  next
    case (pose s e newIndex)
    then show ?case by (simp add: timeline_inv_handlePoseSelect)
  next
    case (scene s e scene)
    then show ?case by (simp add: timeline_inv_handleSceneSelect)
  qed
  then show ?thesis by (simp add: timeline_inv_def)
qed

text \<open>The append-truncate law when the cursor of the closure is the live cursor.\<close>

lemma append_truncate_single:
  assumes "currentOutfitIndex render = k" "currentOutfitIndex live = k" "0 \<le> k"
    and "k + 1 < int (length (outfitHistory live))"
    and "displayImageUrl render = Str img" "img \<noteq> []" "\<not> isLoading render"
    and "generateVirtualTryOnImage e img f = Inr url"
  shows "outfitHistory (handleGarmentSelect e f g render live) =
           take (nat k + 1) (outfitHistory live) @
             [\<lparr>garment = Some g, garments = None,
               poseImages =
                 [(prop_key (js_nth POSE_INSTRUCTIONS (currentPoseIndex render)), url)]\<rparr>]"
    and "int (length (outfitHistory (handleGarmentSelect e f g render live))) = k + 2"
    and "currentOutfitIndex (handleGarmentSelect e f g render live) = k + 1"
  using assms js_slice0_in_range [of k "outfitHistory live"]
  by (simp_all add: handleGarmentSelect_success)

lemma append_truncate_multi:
  assumes "currentOutfitIndex render = k" "currentOutfitIndex live = k" "0 \<le> k"
    and "k + 1 < int (length (outfitHistory live))"
    and "displayImageUrl render = Str img" "img \<noteq> []" "\<not> isLoading render" "items \<noteq> []"
    and "generateMultiGarmentTryOn e img (map fst items) = Inr url"
  shows "outfitHistory (handleMultiGarmentSelect e items render live) =
           take (nat k + 1) (outfitHistory live) @
             [\<lparr>garment = Some (snd (hd items)), garments = Some (map snd items),
               poseImages =
                 [(prop_key (js_nth POSE_INSTRUCTIONS (currentPoseIndex render)), url)]\<rparr>]"
    and "int (length (outfitHistory (handleMultiGarmentSelect e items render live))) = k + 2"
    and "currentOutfitIndex (handleMultiGarmentSelect e items render live) = k + 1"
  using assms js_slice0_in_range [of k "outfitHistory live"]
  by (simp_all add: handleMultiGarmentSelect_success)

subsection \<open>C1: the cursor can leave the history\<close>

text \<open>
  Claim C1 says that in every reachable state \<open>0 \<le> cursor < history.length\<close>. The component
  breaks it: with two layers and the cursor at 0 a try-on is started, redo is pressed
  while the request is pending, and the answer appends after the layer of the closure's
  cursor while incrementing the live cursor. The history then has two layers and the
  cursor is 2.
\<close>

theorem cursor_beyond_history:
  "currentOutfitIndex scenario_C_undone = 0
   \<and> length (outfitHistory scenario_C_undone) = 2
   \<and> currentOutfitIndex (handleRedo try_on_pending) = 1
   \<and> currentOutfitIndex redo_during_try_on = 2
   \<and> length (outfitHistory redo_during_try_on) = 2
   \<and> timeline_inv redo_during_try_on = False"
  by code_simp

subsection \<open>C2: appending with a stale cursor\<close>

text \<open>
  Claim C2 says that a successful garment application at cursor \<open>k\<close> with \<open>n > k + 1\<close>
  layers leaves \<open>history[0..k]\<close> followed by the new layer and the cursor at \<open>k + 1\<close>. The
  component truncates by the cursor of the closure and increments the live cursor. A
  captured callback that runs after an undo finds the cursor at 0 with two layers and
  leaves three layers; the try-on with a redo during the request, started at cursor 0 with
  two layers, leaves the cursor at 2.
\<close>

theorem append_with_stale_cursor:
  "currentOutfitIndex (handleUndo scenario_B) = 0
   \<and> length (outfitHistory (handleUndo scenario_B)) = 2
   \<and> outfitHistory undo_before_callback =
       outfitHistory (handleUndo scenario_B) @
         [\<lparr>garment = Some hat, garments = None,
           poseImages = [(''Full frontal view, hands on hips'', ''try:f2'')]\<rparr>]
   \<and> length (outfitHistory undo_before_callback) = 3
   \<and> currentOutfitIndex undo_before_callback = 1
   \<and> currentOutfitIndex scenario_C_undone = 0
   \<and> length (outfitHistory scenario_C_undone) = 2
   \<and> currentOutfitIndex redo_during_try_on = 2"
  by code_simp

subsection \<open>C3: the displayed image\<close>

text \<open>
  Claim C3 says that the displayed image is null when the history is empty. After the
  model was finalized and the studio was left through the back button, the history is empty
  and the displayed image is still the model image.
\<close>

theorem displayed_image_empty_history_counterexample:
  "outfitHistory back_at_start = [] \<and> displayImageUrl back_at_start \<noteq> Null"
  by code_simp

text \<open>
  Claim C3, amended. The displayed image is the entry of the active layer at the active
  pose key when that entry exists; when the active pose has no entry and the layer has some
  entry, it is the first inserted entry of the layer; when the history is empty it is the
  stored model image \<open>generatedModelUrl\<close>, which is null only if no model was generated.
\<close>

theorem displayed_image:
  "(js_nth (outfitHistory s) (currentOutfitIndex s) = Some layer \<longrightarrow>
      prop_get (poseImages layer) (prop_key (js_nth POSE_INSTRUCTIONS (currentPoseIndex s))) = Some v \<longrightarrow>
      displayImageUrl s = Str v)
   \<and> (js_nth (outfitHistory s) (currentOutfitIndex s) = Some layer \<longrightarrow>
      prop_get (poseImages layer) (prop_key (js_nth POSE_INSTRUCTIONS (currentPoseIndex s))) = None \<longrightarrow>
      poseImages layer \<noteq> [] \<longrightarrow>
      displayImageUrl s = Str (hd (object_values (poseImages layer)))
      \<and> hd (object_values (poseImages layer)) \<in> set (object_values (poseImages layer)))
   \<and> (outfitHistory s = [] \<longrightarrow> displayImageUrl s = nullable (generatedModelUrl s))"
proof (intro conjI impI)
  assume "js_nth (outfitHistory s) (currentOutfitIndex s) = Some layer"
    and "prop_get (poseImages layer) (prop_key (js_nth POSE_INSTRUCTIONS (currentPoseIndex s))) = Some v"
  then show "displayImageUrl s = Str v"
    by (auto simp: displayImageUrl_def js_nth_def split: if_splits)
next
  assume layer: "js_nth (outfitHistory s) (currentOutfitIndex s) = Some layer"
    and miss: "prop_get (poseImages layer) (prop_key (js_nth POSE_INSTRUCTIONS (currentPoseIndex s))) = None"
    and some: "poseImages layer \<noteq> []"
  from layer have "outfitHistory s \<noteq> []"
    by (auto simp: js_nth_def split: if_splits)
  with layer miss some show "displayImageUrl s = Str (hd (object_values (poseImages layer)))"
    by (cases "poseImages layer") (simp_all add: displayImageUrl_def object_values_def)
  from some show "hd (object_values (poseImages layer)) \<in> set (object_values (poseImages layer))"
    by (cases "poseImages layer") (simp_all add: object_values_def)
next
  assume "outfitHistory s = []"
  then show "displayImageUrl s = nullable (generatedModelUrl s)"
    by (simp add: displayImageUrl_def)
qed

theorem displayed_image_witness:
  "js_nth (outfitHistory scenario_B) (currentOutfitIndex scenario_B) =
     Some \<lparr>garment = Some shirt, garments = None,
           poseImages = [(''Full frontal view, hands on hips'', ''try:f1'')]\<rparr>
   \<and> displayImageUrl scenario_B = Str ''try:f1''
   \<and> currentPoseIndex base_only_state = 1
   \<and> js_nth (outfitHistory base_only_state) (currentOutfitIndex base_only_state) =
     Some \<lparr>garment = None, garments = None,
           poseImages = [(''Full frontal view, hands on hips'', ''M0'')]\<rparr>
   \<and> displayImageUrl base_only_state = Str ''M0''
   \<and> outfitHistory back_at_start = []
   \<and> displayImageUrl back_at_start = Str ''M0''"
proof -
  let ?L1 = "\<lparr>garment = Some shirt, garments = None,
           poseImages = [(''Full frontal view, hands on hips'', ''try:f1'')]\<rparr>"
  let ?L0 = "\<lparr>garment = None, garments = None,
           poseImages = [(''Full frontal view, hands on hips'', ''M0'')]\<rparr>"
  have a1: "js_nth (outfitHistory scenario_B) (currentOutfitIndex scenario_B) = Some ?L1"
    by code_simp
  have a2: "prop_get (poseImages ?L1)
      (prop_key (js_nth POSE_INSTRUCTIONS (currentPoseIndex scenario_B))) = Some ''try:f1''"
    by code_simp
  have b0: "currentPoseIndex base_only_state = 1"
    by code_simp
  have b1: "js_nth (outfitHistory base_only_state) (currentOutfitIndex base_only_state) = Some ?L0"
    by code_simp
  have b2: "prop_get (poseImages ?L0)
      (prop_key (js_nth POSE_INSTRUCTIONS (currentPoseIndex base_only_state))) = None"
    by code_simp
  have b3: "poseImages ?L0 \<noteq> []"
    by simp
  have b4: "hd (object_values (poseImages ?L0)) = ''M0''"
    by (simp add: object_values_def)
  have c1: "outfitHistory back_at_start = []"
    by code_simp
  have c2: "nullable (generatedModelUrl back_at_start) = Str ''M0''"
    by code_simp
  from displayed_image [of scenario_B ?L1 "''try:f1''"] a1 a2
  have A: "displayImageUrl scenario_B = Str ''try:f1''" by blast
  from displayed_image [of base_only_state ?L0] b1 b2 b3
  have "displayImageUrl base_only_state = Str (hd (object_values (poseImages ?L0)))" by blast
  with b4 have B: "displayImageUrl base_only_state = Str ''M0''" by simp
  from displayed_image [of back_at_start] c1
  have "displayImageUrl back_at_start = nullable (generatedModelUrl back_at_start)" by blast
  with c2 have C: "displayImageUrl back_at_start = Str ''M0''" by simp
  from a1 A b0 b1 B c1 C show ?thesis by blast
qed

subsection \<open>C4: a failed pose change is rolled back\<close>

text \<open>
  Claim C4. From pose index \<open>p\<close>, when the target pose \<open>i\<close> has no image on the active
  layer and the pose-variation request that \<open>handlePoseSelect\<close> sends fails, the pose
  index is \<open>p\<close> again afterwards and the history is unchanged. The hypotheses are those
  under which the request is sent; the last conjunct records that it was.
\<close>

theorem pose_rollback:
  assumes idle: "\<not> isLoading s"
    and start: "currentPoseIndex s = p" "i \<noteq> p"
    and layer: "js_nth (outfitHistory s) (currentOutfitIndex s) = Some layer"
    and uncached:
      "\<not> truthy_entry (prop_get (poseImages layer) (prop_key (js_nth POSE_INSTRUCTIONS i)))"
    and base: "object_values (poseImages layer) = base # others" "base \<noteq> []"
    and fails: "generatePoseVariation e base (js_nth POSE_INSTRUCTIONS i) = Inl failure"
  shows "currentPoseIndex (handlePoseSelect e i s) = p
         \<and> outfitHistory (handlePoseSelect e i s) = outfitHistory s
         \<and> extCalls (handlePoseSelect e i s) =
             extCalls s @ [PoseVariation base (js_nth POSE_INSTRUCTIONS i)]"
proof -
  from layer have "outfitHistory s \<noteq> []"
    by (auto simp: js_nth_def split: if_splits)
  with assms show ?thesis
    by (simp add: handlePoseSelect_def Let_def)
qed

theorem pose_rollback_witness:
  "\<not> isLoading scenario_B
   \<and> currentPoseIndex scenario_B = 0
   \<and> currentPoseIndex (handlePoseSelect failing_env 1 scenario_B) = 0
   \<and> outfitHistory (handlePoseSelect failing_env 1 scenario_B) = outfitHistory scenario_B
   \<and> extCalls (handlePoseSelect failing_env 1 scenario_B) =
       extCalls scenario_B @ [PoseVariation ''try:f1'' (js_nth POSE_INSTRUCTIONS 1)]"
proof -
  let ?L1 = "\<lparr>garment = Some shirt, garments = None,
           poseImages = [(''Full frontal view, hands on hips'', ''try:f1'')]\<rparr>"
  have idle: "\<not> isLoading scenario_B" by code_simp
  have start: "currentPoseIndex scenario_B = 0" "(1::int) \<noteq> 0" by code_simp+
  have layer: "js_nth (outfitHistory scenario_B) (currentOutfitIndex scenario_B) = Some ?L1"
    by code_simp
  have uncached:
    "\<not> truthy_entry (prop_get (poseImages ?L1) (prop_key (js_nth POSE_INSTRUCTIONS 1)))"
    by code_simp
  have base: "object_values (poseImages ?L1) = ''try:f1'' # []" "''try:f1'' \<noteq> []"
    by code_simp+
  have fails: "generatePoseVariation failing_env ''try:f1'' (js_nth POSE_INSTRUCTIONS 1) = Inl ''blocked''"
    by code_simp
  from pose_rollback [OF idle start layer uncached base fails] idle start(1)
  show ?thesis by blast
qed

subsection \<open>C5: the busy flag of a captured callback\<close>

text \<open>
  Claim C5 says that while the busy flag is set every engine operation is a no-op. The
  guard of the garment handlers reads the flag of their closure. While a pose change is
  pending, so that the flag is set, the \<open>onGarmentSelect\<close> captured by WardrobePanel before
  the pose change passes its guard: it sends a try-on request and its answer appends a
  layer.
\<close>

theorem busy_flag_stale_guard:
  "isLoading pose_pending
   \<and> length (outfitHistory pose_pending) = 2
   \<and> extCalls (handleGarmentSelect_start demo_env ''f2'' hat scenario_B pose_pending) =
       extCalls pose_pending @ [VirtualTryOn ''try:f1'' ''f2'']
   \<and> length (outfitHistory try_on_while_busy) = 3
   \<and> currentOutfitIndex try_on_while_busy = currentOutfitIndex pose_pending + 1"
  by code_simp

subsection \<open>C6: undo then redo\<close>

text \<open>
  Claim C6. In an active state with cursor \<open>c > 0\<close>, undo followed by redo restores the
  cursor \<open>c\<close> and leaves the history as it was.
\<close>

theorem undo_redo_inverse:
  assumes "0 < currentOutfitIndex s"
    and "currentOutfitIndex s < int (length (outfitHistory s))"
  shows "currentOutfitIndex (handleRedo (handleUndo s)) = currentOutfitIndex s
         \<and> outfitHistory (handleRedo (handleUndo s)) = outfitHistory s"
  using assms by (simp add: handleUndo_def handleRedo_def)

theorem undo_redo_inverse_witness:
  "0 < currentOutfitIndex scenario_B
   \<and> currentOutfitIndex scenario_B < int (length (outfitHistory scenario_B))
   \<and> currentOutfitIndex (handleRedo (handleUndo scenario_B)) = currentOutfitIndex scenario_B
   \<and> outfitHistory (handleRedo (handleUndo scenario_B)) = outfitHistory scenario_B"
proof -
  have c: "0 < currentOutfitIndex scenario_B"
    "currentOutfitIndex scenario_B < int (length (outfitHistory scenario_B))"
    by code_simp+
  from undo_redo_inverse [OF c] c show ?thesis by blast
qed

subsection \<open>C7: the base layer cannot be removed\<close>

text \<open>
  Claim C7. In every state, \<open>handleRemoveLayer 0\<close> leaves history and cursor unchanged and
  sets the error message that the base model cannot be removed.
\<close>

theorem remove_base_guard:
  "outfitHistory (handleRemoveLayer 0 s) = outfitHistory s
   \<and> currentOutfitIndex (handleRemoveLayer 0 s) = currentOutfitIndex s
   \<and> error (handleRemoveLayer 0 s) =
       Some ''Cannot remove the base model. Please start over to change the model.''"
  by (simp add: handleRemoveLayer_def)

theorem remove_base_guard_witness:
  "outfitHistory (handleRemoveLayer 0 scenario_B) = outfitHistory scenario_B
   \<and> currentOutfitIndex (handleRemoveLayer 0 scenario_B) = currentOutfitIndex scenario_B
   \<and> error (handleRemoveLayer 0 scenario_B) =
       Some ''Cannot remove the base model. Please start over to change the model.''"
  using remove_base_guard [of scenario_B] by blast

subsection \<open>C8: a scene change writes one pose entry\<close>






subsection \<open>C9: switching to a cached pose\<close>

text \<open>
  Claim C9. When the active layer already holds an image for pose \<open>i\<close> (a non-empty URL,
  which is what the handler tests) and no operation is in flight, \<open>handlePoseSelect i\<close>
  changes the pose index and nothing else: the log of requests and the history are
  unchanged, and the displayed image afterwards is the cached entry of pose \<open>i\<close>.
\<close>

theorem cached_pose_switch:
  assumes idle: "\<not> isLoading s"
    and layer: "js_nth (outfitHistory s) (currentOutfitIndex s) = Some layer"
    and cached: "prop_get (poseImages layer) (prop_key (js_nth POSE_INSTRUCTIONS i)) = Some img"
      "img \<noteq> []"
  shows "handlePoseSelect e i s = s\<lparr>currentPoseIndex := i\<rparr>
         \<and> extCalls (handlePoseSelect e i s) = extCalls s
         \<and> outfitHistory (handlePoseSelect e i s) = outfitHistory s
         \<and> displayImageUrl (handlePoseSelect e i s) = Str img"
proof -
  from layer have ne: "outfitHistory s \<noteq> []"
    by (auto simp: js_nth_def split: if_splits)
  have step: "handlePoseSelect e i s = s\<lparr>currentPoseIndex := i\<rparr>"
    using idle layer cached ne by (simp add: handlePoseSelect_def Let_def truthy_entry_def)
  have "displayImageUrl (s\<lparr>currentPoseIndex := i\<rparr>) = Str img"
    using layer cached ne by (simp add: displayImageUrl_def)
  with step show ?thesis by simp
qed

theorem cached_pose_switch_witness:
  "\<not> isLoading posed_state
   \<and> currentPoseIndex posed_state = 1
   \<and> handlePoseSelect failing_env 0 posed_state = posed_state\<lparr>currentPoseIndex := 0\<rparr>
   \<and> extCalls (handlePoseSelect failing_env 0 posed_state) = extCalls posed_state
   \<and> outfitHistory (handlePoseSelect failing_env 0 posed_state) = outfitHistory posed_state
   \<and> displayImageUrl (handlePoseSelect failing_env 0 posed_state) = Str ''try:f1''"
proof -
  let ?L = "\<lparr>garment = Some shirt, garments = None,
           poseImages = [(''Full frontal view, hands on hips'', ''try:f1''),
                         (''Slightly turned, 3/4 view'', ''pose:try:f1'')]\<rparr>"
  have idle: "\<not> isLoading posed_state" by code_simp
  have p: "currentPoseIndex posed_state = 1" by code_simp
  have layer: "js_nth (outfitHistory posed_state) (currentOutfitIndex posed_state) = Some ?L"
    by code_simp
  have cached: "prop_get (poseImages ?L) (prop_key (js_nth POSE_INSTRUCTIONS 0)) = Some ''try:f1''"
    "''try:f1'' \<noteq> []"
    by code_simp+
  from cached_pose_switch [OF idle layer cached, of failing_env] idle p
  show ?thesis by blast
qed

subsection \<open>C10: wardrobe ids stay distinct\<close>

lemma find_None_iff_ids:
  "(find (\<lambda>i. item_id i = x) ws = None) = (x \<notin> set (map item_id ws))"
  by (induction ws) auto

lemma distinct_registerItem:
  "distinct (map item_id ws) \<Longrightarrow> distinct (map item_id (registerItem item ws))"
  by (simp add: registerItem_def find_None_iff_ids)

lemma handleGarmentSelect_wardrobe:
  "wardrobe (handleGarmentSelect e f g render live) = wardrobe live \<or>
   (\<exists>item. wardrobe (handleGarmentSelect e f g render live) =
      registerItem item (wardrobe live))"
  by (auto simp: handleGarmentSelect_def handleGarmentSelect_finish_def Let_def
      split: js_string.splits sum.splits)

text \<open>
  Claim C10. If the ids of the wardrobe items are pairwise distinct, they are still
  pairwise distinct after a garment application, which registers the garment only when its
  id is absent, and after the removal of an item, which filters by id. The application may
  be the callback of any render: the updater tests the wardrobe it is applied to.
\<close>

theorem wardrobe_ids_distinct:
  assumes "distinct (map item_id (wardrobe s))"
  shows "distinct (map item_id (wardrobe (handleGarmentSelect e garmentFile garmentInfo render s)))
         \<and> distinct (map item_id (wardrobe (handleRemoveWardrobeItem itemId s)))"
proof
  from handleGarmentSelect_wardrobe [of e garmentFile garmentInfo render s]
  show "distinct (map item_id (wardrobe (handleGarmentSelect e garmentFile garmentInfo render s)))"
    using assms by (auto simp: distinct_registerItem)
  show "distinct (map item_id (wardrobe (handleRemoveWardrobeItem itemId s)))"
    using assms by (simp add: handleRemoveWardrobeItem_def distinct_map_filter)
qed

theorem wardrobe_ids_distinct_witness:
  "distinct (map item_id (wardrobe scenario_B))
   \<and> distinct (map item_id
         (wardrobe (handleGarmentSelect demo_env ''f1'' shirt scenario_A scenario_B)))
   \<and> distinct (map item_id (wardrobe (handleRemoveWardrobeItem ''g1'' scenario_B)))"
proof -
  have d: "distinct (map item_id (wardrobe scenario_B))" by code_simp
  from wardrobe_ids_distinct [OF d, of demo_env "''f1''" shirt scenario_A "''g1''"] d
  show ?thesis by blast
qed

end
